theory Spec2Isabelle
  imports Complex_Main "HOL-Library.AList"
begin

section \<open>Python values and exceptions\<close>

text \<open>
  Exceptions are values: the class of the exception and its message (\<open>str(e)\<close>).
  A computation that may raise returns \<open>exn + 'a\<close>, with \<open>Inl\<close> for the raise.
\<close>

datatype exc_class =
  ValueError | TypeError | AttributeError | KeyError | ZeroDivisionError
  | JSONDecodeError | OSError | ImportError | RuntimeError

datatype exn = Exn (exn_class: exc_class) (exn_msg: string)

text \<open>Python's true division of two ints: raises on a zero divisor.\<close>

definition py_truediv :: "int \<Rightarrow> int \<Rightarrow> exn + real" where
  "py_truediv a b =
     (if b = 0 then Inl (Exn ZeroDivisionError ''division by zero'')
      else Inr (real_of_int a / real_of_int b))"

section \<open>base.py: IngestorStatus and IngestorProgress\<close>

datatype IngestorStatus = PENDING | RUNNING | COMPLETED | FAILED | PAUSED

text \<open>
  \<open>datetime.now()\<close> is an input of the program: a time stamp is the number of the clock
  reading, and \<open>isoformat\<close> (a parameter wherever it is needed) renders it.
\<close>

type_synonym timestamp = nat

record IngestorProgress =
  total_items :: int
  processed_items :: int
  failed_items :: int
  start_time :: timestamp
  last_update :: timestamp
  status :: IngestorStatus
  errors :: "string list"
  metadata :: "(string \<times> string) list"

definition IngestorProgress_init :: "timestamp \<Rightarrow> int \<Rightarrow> IngestorProgress" where
  "IngestorProgress_init now n =
     \<lparr> total_items = n, processed_items = 0, failed_items = 0,
       start_time = now, last_update = now, status = PENDING,
       errors = [], metadata = [] \<rparr>"

definition completion_percentage :: "IngestorProgress \<Rightarrow> exn + real" where
  "completion_percentage p =
     (if total_items p = 0 then Inr 0
      else case py_truediv (processed_items p) (total_items p) of
             Inl e \<Rightarrow> Inl e
           | Inr q \<Rightarrow> Inr (q * 100))"

definition success_rate :: "IngestorProgress \<Rightarrow> exn + real" where
  "success_rate p =
     (if processed_items p = 0 then Inr 0
      else case py_truediv (processed_items p - failed_items p) (processed_items p) of
             Inl e \<Rightarrow> Inl e
           | Inr q \<Rightarrow> Inr (q * 100))"

text \<open>\<open>dict.update\<close>: later keys overwrite earlier ones.\<close>

definition dict_update :: "('k \<times> 'v) list \<Rightarrow> ('k \<times> 'v) list \<Rightarrow> ('k \<times> 'v) list" where
  "dict_update d new = fold (\<lambda>(k, v) acc. AList.update k v acc) new d"

definition update ::
  "timestamp \<Rightarrow> int \<Rightarrow> int \<Rightarrow> (string \<times> string) list option \<Rightarrow> IngestorProgress
     \<Rightarrow> IngestorProgress" where
  "update now processed failed md p =
     (let p1 = p\<lparr> processed_items := processed_items p + processed \<rparr>;
          p2 = p1\<lparr> failed_items := failed_items p1 + failed \<rparr>;
          p3 = p2\<lparr> last_update := now \<rparr>
      in case md of
           None \<Rightarrow> p3
         | Some m \<Rightarrow> (if m = [] then p3 else p3\<lparr> metadata := dict_update (metadata p3) m \<rparr>))"

definition add_error :: "string \<Rightarrow> string \<Rightarrow> IngestorProgress \<Rightarrow> IngestorProgress" where
  "add_error now_iso error p = p\<lparr> errors := errors p @ [now_iso @ '': '' @ error] \<rparr>"

text \<open>The serialization view of \<open>to_dict\<close>; \<open>recent_errors\<close> is \<open>errors[-5:]\<close>.\<close>

record progress_dict =
  d_total_items :: int
  d_processed_items :: int
  d_failed_items :: int
  d_completion_percentage :: real
  d_success_rate :: real
  d_status :: IngestorStatus
  d_start_time :: string
  d_last_update :: string
  d_error_count :: int
  d_recent_errors :: "string list"
  d_metadata :: "(string \<times> string) list"

definition to_dict :: "(timestamp \<Rightarrow> string) \<Rightarrow> IngestorProgress \<Rightarrow> exn + progress_dict" where
  "to_dict isofmt p =
     (case completion_percentage p of
        Inl e \<Rightarrow> Inl e
      | Inr cp \<Rightarrow>
         (case success_rate p of
            Inl e \<Rightarrow> Inl e
          | Inr sr \<Rightarrow>
             Inr \<lparr> d_total_items = total_items p,
                   d_processed_items = processed_items p,
                   d_failed_items = failed_items p,
                   d_completion_percentage = cp,
                   d_success_rate = sr,
                   d_status = status p,
                   d_start_time = isofmt (start_time p),
                   d_last_update = isofmt (last_update p),
                   d_error_count = int (length (errors p)),
                   d_recent_errors = drop (length (errors p) - 5) (errors p),
                   d_metadata = metadata p \<rparr>))"

section \<open>The state of an ingestor and its environment\<close>

text \<open>
  The world outside the progress tracker: the backend handle
  (\<open>self.pixeltable_client\<close>, set or \<open>None\<close>), the clock, the logger's output, the file
  system and the rows of the backend table. A path of the file system is absent, a
  readable text file, or something whose reading raises (a directory, undecodable bytes).
\<close>

datatype log_level = INFO | WARNING | ERROR

datatype fs_entry = File string | Unreadable exn

record world =
  pixeltable_client :: bool
  clock :: nat
  logs :: "(log_level \<times> string) list"
  fs :: "string \<Rightarrow> fs_entry option"
  table_rows :: "(string \<times> string) list list"

text \<open>
  The calls of the overridable methods are recorded in \<open>calls\<close>, a ghost field the source
  does not have, so that "is never invoked" can be stated.
\<close>

datatype call =
  Call_initialize_backend | Call_validate_source | Call_parse_source
  | Call_process_batch | Call_transform_record | Call_store_pixeltable

record ingestor_state =
  batch_size :: int
  progress :: "IngestorProgress option"
  calls :: "call list"
  world :: world

text \<open>
  The abstract methods of \<open>BaseIngestor\<close>, as a subclass supplies them. They act on the
  world; a raise is \<open>Inl\<close>. \<open>import_pixeltable\<close> is the outcome of \<open>import pixeltable\<close>.
\<close>

record ('r, 't) ingestor_methods =
  get_table_name :: string
  import_pixeltable :: "exn option"
  ensure_pixeltable_schema :: "world \<Rightarrow> (exn + unit) \<times> world"
  validate_source :: "string \<Rightarrow> world \<Rightarrow> (exn + bool \<times> string option) \<times> world"
  parse_source :: "string \<Rightarrow> world \<Rightarrow> (exn + 'r list) \<times> world"
  transform_record :: "'r \<Rightarrow> world \<Rightarrow> (exn + 't) \<times> world"
  store_pixeltable :: "'t \<Rightarrow> world \<Rightarrow> (exn + unit) \<times> world"

definition log_w :: "log_level \<Rightarrow> string \<Rightarrow> world \<Rightarrow> world" where
  "log_w lvl msg w = w\<lparr> logs := logs w @ [(lvl, msg)] \<rparr>"

definition log :: "log_level \<Rightarrow> string \<Rightarrow> ingestor_state \<Rightarrow> ingestor_state" where
  "log lvl msg s = s\<lparr> world := log_w lvl msg (world s) \<rparr>"

definition tick :: "ingestor_state \<Rightarrow> ingestor_state" where
  "tick s = s\<lparr> world := (world s)\<lparr> clock := Suc (clock (world s)) \<rparr> \<rparr>"

definition record_call :: "call \<Rightarrow> ingestor_state \<Rightarrow> ingestor_state" where
  "record_call c s = s\<lparr> calls := calls s @ [c] \<rparr>"

text \<open>\<open>if self.progress: self.progress.add_error(msg)\<close>\<close>

definition track_add_error ::
  "(timestamp \<Rightarrow> string) \<Rightarrow> string \<Rightarrow> ingestor_state \<Rightarrow> ingestor_state" where
  "track_add_error isofmt msg s =
     (case progress s of
        None \<Rightarrow> s
      | Some p \<Rightarrow> tick (s\<lparr> progress := Some (add_error (isofmt (clock (world s))) msg p) \<rparr>))"

text \<open>\<open>if self.progress: self.progress.update(processed=p, failed=f)\<close>\<close>

definition track_update :: "int \<Rightarrow> int \<Rightarrow> ingestor_state \<Rightarrow> ingestor_state" where
  "track_update p f s =
     (case progress s of
        None \<Rightarrow> s
      | Some pr \<Rightarrow> tick (s\<lparr> progress := Some (update (clock (world s)) p f None pr) \<rparr>))"

text \<open>Decimal rendering of an int, as an f-string does it.\<close>

fun str_nat :: "nat \<Rightarrow> string" where
  "str_nat n = (if n < 10 then [''0123456789'' ! n]
                else str_nat (n div 10) @ [''0123456789'' ! (n mod 10)])"

declare str_nat.simps [simp del]

definition str_int :: "int \<Rightarrow> string" where
  "str_int i = (if i < 0 then CHR ''-'' # str_nat (nat (- i)) else str_nat (nat i))"

text \<open>\<open>str\<close> of an \<open>Optional[str]\<close>.\<close>

definition str_opt :: "string option \<Rightarrow> string" where
  "str_opt x = (case x of None \<Rightarrow> ''None'' | Some t \<Rightarrow> t)"

section \<open>base.py: BaseIngestor\<close>

definition initialize_backend ::
  "('r, 't) ingestor_methods \<Rightarrow> ingestor_state \<Rightarrow> (exn + unit) \<times> ingestor_state" where
  "initialize_backend m s =
     (let (r, s') =
        (case import_pixeltable m of
           Some e \<Rightarrow> (Inl e, s)
         | None \<Rightarrow>
            (let w1 = (world s)\<lparr> pixeltable_client := True \<rparr>;
                 (r, w2) = ensure_pixeltable_schema m w1
             in (r, s\<lparr> world := w2 \<rparr>)))
      in case r of
           Inr u \<Rightarrow> (Inr u, log INFO ''Pixeltable backend initialized'' s')
         | Inl e \<Rightarrow>
            (if exn_class e = ImportError
             then (Inl e, log ERROR
                     ''Pixeltable not available - install with: pip install pixeltable'' s')
             else (Inl e, log ERROR (''Pixeltable initialization failed: '' @ exn_msg e) s')))"

text \<open>
  One record of the loop of \<open>_process_batch\<close>: the body of its \<open>try\<close>, transform then
  store.
\<close>

definition try_record ::
  "('r, 't) ingestor_methods \<Rightarrow> 'r \<Rightarrow> ingestor_state \<Rightarrow> (exn + unit) \<times> ingestor_state" where
  "try_record m r s =
     (let s1 = record_call Call_transform_record s;
          (t, w1) = transform_record m r (world s1)
      in case t of
           Inl e \<Rightarrow> (Inl e, s1\<lparr> world := w1 \<rparr>)
         | Inr transformed \<Rightarrow>
            (let s2 = record_call Call_store_pixeltable (s1\<lparr> world := w1 \<rparr>);
                 (u, w2) = store_pixeltable m transformed (world s2)
             in (u, s2\<lparr> world := w2 \<rparr>)))"

fun process_batch_loop ::
  "(timestamp \<Rightarrow> string) \<Rightarrow> ('r, 't) ingestor_methods \<Rightarrow> 'r list
     \<Rightarrow> int \<times> int \<times> ingestor_state \<Rightarrow> int \<times> int \<times> ingestor_state" where
  "process_batch_loop isofmt m [] acc = acc"
| "process_batch_loop isofmt m (r # rs) (processed, failed, s) =
     (case try_record m r s of
        (Inr u, s1) \<Rightarrow> process_batch_loop isofmt m rs (processed + 1, failed, s1)
      | (Inl e, s1) \<Rightarrow>
          (let s2 = log WARNING (''Failed to process record: '' @ exn_msg e) s1;
               s3 = track_add_error isofmt (''Record processing: '' @ exn_msg e) s2
           in process_batch_loop isofmt m rs (processed, failed + 1, s3)))"

text \<open>\<open>_process_batch\<close> returns the dict \<open>{"processed": p, "failed": f}\<close> as the pair \<open>(p, f)\<close>.\<close>

definition process_batch ::
  "(timestamp \<Rightarrow> string) \<Rightarrow> ('r, 't) ingestor_methods \<Rightarrow> 'r list \<Rightarrow> ingestor_state
     \<Rightarrow> (exn + int \<times> int) \<times> ingestor_state" where
  "process_batch isofmt m batch s =
     (case process_batch_loop isofmt m batch (0, 0, s) of
        (processed, failed, s') \<Rightarrow> (Inr (processed, failed), s'))"

text \<open>
  \<open>range(0, n, step)\<close>: a zero step raises, a negative one gives no index;
  \<open>records[i:i + batch_size]\<close> is \<open>py_slice\<close>.
\<close>

definition py_range0 :: "nat \<Rightarrow> int \<Rightarrow> exn + nat list" where
  "py_range0 n step =
     (if step = 0 then Inl (Exn ValueError ''range() arg 3 must not be zero'')
      else if step < 0 then Inr []
      else Inr (map (\<lambda>k. k * nat step) [0 ..< (n + nat step - 1) div nat step]))"

definition py_slice :: "'a list \<Rightarrow> nat \<Rightarrow> int \<Rightarrow> 'a list" where
  "py_slice xs i len = take (nat len) (drop i xs)"

record ingest_summary =
  total_records :: int
  processed_records :: int
  failed_records :: int
  summary_success_rate :: real
  table_name :: string
  summary_progress :: "progress_dict option"

datatype 'r ingest_result =
  Validation_report (record_count: int) (sample_record: "'r option")
  | Summary ingest_summary

text \<open>
  One turn of the batch loop of \<open>ingest\<close>. \<open>pb\<close> is the method that
  \<open>self._process_batch\<close> resolves to: \<open>process_batch\<close> above unless a subclass overrides it.
\<close>

definition batch_step ::
  "(timestamp \<Rightarrow> string) \<Rightarrow> ('r list \<Rightarrow> ingestor_state \<Rightarrow> (exn + int \<times> int) \<times> ingestor_state)
     \<Rightarrow> 'r list \<Rightarrow> nat \<Rightarrow> int \<times> int \<times> ingestor_state \<Rightarrow> int \<times> int \<times> ingestor_state" where
  "batch_step isofmt pb records i acc =
     (case acc of (processed_count, failed_count, s) \<Rightarrow>
        (let batch = py_slice records i (batch_size s)
         in case pb batch (record_call Call_process_batch s) of
              (Inr (processed, failed), s1) \<Rightarrow>
                (let s2 = track_update processed failed s1;
                     s3 = log INFO ''Processed batch'' s2
                 in (processed_count + processed, failed_count + failed, s3))
            | (Inl e, s1) \<Rightarrow>
                (let s2 = log ERROR (''Batch processing failed: '' @ exn_msg e) s1;
                     s3 = track_add_error isofmt
                            (''Batch '' @ str_int (int i div batch_size s + 1) @ '': '' @ exn_msg e) s2
                 in (processed_count, failed_count + int (length batch), s3))))"

definition set_status :: "IngestorStatus \<Rightarrow> ingestor_state \<Rightarrow> ingestor_state" where
  "set_status st s =
     (case progress s of
        None \<Rightarrow> s
      | Some p \<Rightarrow> s\<lparr> progress := Some (p\<lparr> status := st \<rparr>) \<rparr>)"

definition build_summary ::
  "(timestamp \<Rightarrow> string) \<Rightarrow> ('r, 't) ingestor_methods \<Rightarrow> nat \<Rightarrow> int \<Rightarrow> int \<Rightarrow> ingestor_state
     \<Rightarrow> exn + ingest_summary" where
  "build_summary isofmt m n processed_count failed_count s =
     (case (if processed_count > 0
            then (case py_truediv (processed_count - failed_count) processed_count of
                    Inl e \<Rightarrow> Inl e | Inr q \<Rightarrow> Inr (q * 100))
            else Inr 0) of
        Inl e \<Rightarrow> Inl e
      | Inr rate \<Rightarrow>
         (case (case progress s of
                  None \<Rightarrow> Inr None
                | Some p \<Rightarrow> (case to_dict isofmt p of Inl e \<Rightarrow> Inl e | Inr d \<Rightarrow> Inr (Some d))) of
            Inl e \<Rightarrow> Inl e
          | Inr pd \<Rightarrow>
             Inr \<lparr> total_records = int n,
                   processed_records = processed_count,
                   failed_records = failed_count,
                   summary_success_rate = rate,
                   table_name = get_table_name m,
                   summary_progress = pd \<rparr>))"

text \<open>
  The body of the \<open>try\<close> of \<open>ingest\<close>, in two parts. \<open>ingest_prepare\<close> is steps 1 to 3:
  the backend is initialized, the source validated (a negative answer raises
  \<open>ValueError\<close>) and parsed.
\<close>

definition ingest_prepare ::
  "('r, 't) ingestor_methods \<Rightarrow> string \<Rightarrow> ingestor_state \<Rightarrow> (exn + 'r list) \<times> ingestor_state" where
  "ingest_prepare m source_path s0 =
     (let s1 = log INFO (''Starting ingestion of '' @ source_path) s0
      in case initialize_backend m (record_call Call_initialize_backend s1) of
           (Inl e, s2) \<Rightarrow> (Inl e, s2)
         | (Inr u, s2) \<Rightarrow>
      (let s3 = record_call Call_validate_source s2
       in case validate_source m source_path (world s3) of
            (Inl e, w4) \<Rightarrow> (Inl e, s3\<lparr> world := w4 \<rparr>)
          | (Inr (is_valid, error_msg), w4) \<Rightarrow>
      (let s4 = s3\<lparr> world := w4 \<rparr>
       in if \<not> is_valid
          then (Inl (Exn ValueError (''Source validation failed: '' @ str_opt error_msg)), s4)
          else
      (let s5 = record_call Call_parse_source s4
       in case parse_source m source_path (world s5) of
            (Inl e, w6) \<Rightarrow> (Inl e, s5\<lparr> world := w6 \<rparr>)
          | (Inr records, w6) \<Rightarrow> (Inr records, s5\<lparr> world := w6 \<rparr>)))))"

text \<open>
  \<open>ingest_process\<close> is the rest: the progress is set running, a validate-only call
  returns its report, otherwise the batches are processed and the summary built. The
  flag \<open>resume\<close> is not read by the source.
\<close>

definition ingest_process ::
  "(timestamp \<Rightarrow> string) \<Rightarrow> ('r list \<Rightarrow> ingestor_state \<Rightarrow> (exn + int \<times> int) \<times> ingestor_state)
     \<Rightarrow> ('r, 't) ingestor_methods \<Rightarrow> bool \<Rightarrow> 'r list \<Rightarrow> ingestor_state
     \<Rightarrow> (exn + 'r ingest_result) \<times> ingestor_state" where
  "ingest_process isofmt pb m validate_only records s6 =
     (let s7 = (case progress s6 of
                  None \<Rightarrow> s6
                | Some p \<Rightarrow>
                    s6\<lparr> progress :=
                          Some (p\<lparr> total_items := int (length records), status := RUNNING \<rparr>) \<rparr>);
          s8 = log INFO ''Parsed records from source'' s7
      in if validate_only
         then (Inr (Validation_report (int (length records))
                      (case records of [] \<Rightarrow> None | r # rs \<Rightarrow> Some r)), s8)
         else
      (case py_range0 (length records) (batch_size s8) of
         Inl e \<Rightarrow> (Inl e, s8)
       | Inr starts \<Rightarrow>
      (case fold (batch_step isofmt pb records) starts (0, 0, s8) of
         (processed_count, failed_count, s9) \<Rightarrow>
      (let s10 = set_status (if failed_count = 0 then COMPLETED else FAILED) s9
       in case build_summary isofmt m (length records) processed_count failed_count s10 of
            Inl e \<Rightarrow> (Inl e, s10)
          | Inr summary \<Rightarrow> (Inr (Summary summary), log INFO ''Ingestion completed'' s10)))))"

definition ingest_body ::
  "(timestamp \<Rightarrow> string) \<Rightarrow> ('r list \<Rightarrow> ingestor_state \<Rightarrow> (exn + int \<times> int) \<times> ingestor_state)
     \<Rightarrow> ('r, 't) ingestor_methods \<Rightarrow> string \<Rightarrow> bool \<Rightarrow> bool \<Rightarrow> ingestor_state
     \<Rightarrow> (exn + 'r ingest_result) \<times> ingestor_state" where
  "ingest_body isofmt pb m source_path resume validate_only s0 =
     (case ingest_prepare m source_path s0 of
        (Inl e, s) \<Rightarrow> (Inl e, s)
      | (Inr records, s6) \<Rightarrow> ingest_process isofmt pb m validate_only records s6)"

text \<open>
  \<open>ingest\<close> with its handler: \<open>except Exception as e\<close> logs, marks the progress failed,
  records \<open>str(e)\<close> and raises \<open>e\<close> again.
\<close>

definition ingest_handler ::
  "(timestamp \<Rightarrow> string) \<Rightarrow> exn \<Rightarrow> ingestor_state \<Rightarrow> ingestor_state" where
  "ingest_handler isofmt e s =
     track_add_error isofmt (exn_msg e)
       (set_status FAILED (log ERROR (''Ingestion failed: '' @ exn_msg e) s))"

definition ingest_with ::
  "(timestamp \<Rightarrow> string) \<Rightarrow> ('r list \<Rightarrow> ingestor_state \<Rightarrow> (exn + int \<times> int) \<times> ingestor_state)
     \<Rightarrow> ('r, 't) ingestor_methods \<Rightarrow> string \<Rightarrow> bool \<Rightarrow> bool \<Rightarrow> ingestor_state
     \<Rightarrow> (exn + 'r ingest_result) \<times> ingestor_state" where
  "ingest_with isofmt pb m source_path resume validate_only s =
     (case ingest_body isofmt pb m source_path resume validate_only s of
        (Inl e, s') \<Rightarrow> (Inl e, ingest_handler isofmt e s')
      | (Inr v, s') \<Rightarrow> (Inr v, s'))"

text \<open>\<open>ingest\<close> of an ingestor that does not override \<open>_process_batch\<close>.\<close>

definition ingest ::
  "(timestamp \<Rightarrow> string) \<Rightarrow> ('r, 't) ingestor_methods \<Rightarrow> string \<Rightarrow> bool \<Rightarrow> bool \<Rightarrow> ingestor_state
     \<Rightarrow> (exn + 'r ingest_result) \<times> ingestor_state" where
  "ingest isofmt m = ingest_with isofmt (process_batch isofmt m) m"

definition pause :: "ingestor_state \<Rightarrow> ingestor_state" where
  "pause s =
     (case progress s of
        None \<Rightarrow> s
      | Some p \<Rightarrow> log INFO ''Ingestion paused'' (s\<lparr> progress := Some (p\<lparr> status := PAUSED \<rparr>) \<rparr>))"

definition resume :: "ingestor_state \<Rightarrow> ingestor_state" where
  "resume s =
     (case progress s of
        None \<Rightarrow> s
      | Some p \<Rightarrow> log INFO ''Ingestion resumed'' (s\<lparr> progress := Some (p\<lparr> status := RUNNING \<rparr>) \<rparr>))"

section \<open>Python strings and JSON values\<close>

text \<open>
  Strings are lists of ASCII characters. \<open>str.lower\<close>, \<open>str.title\<close> and \<open>str.strip\<close>
  are the library's functions on such strings: the cased characters are the 26 letters,
  the white space is what \<open>str.isspace\<close> accepts below code 128.
\<close>

definition is_upper :: "char \<Rightarrow> bool" where
  "is_upper c = (65 \<le> (of_char c :: nat) \<and> (of_char c :: nat) \<le> 90)"

definition is_lower :: "char \<Rightarrow> bool" where
  "is_lower c = (97 \<le> (of_char c :: nat) \<and> (of_char c :: nat) \<le> 122)"

definition lower_char :: "char \<Rightarrow> char" where
  "lower_char c = (if is_upper c then char_of ((of_char c :: nat) + 32) else c)"

definition upper_char :: "char \<Rightarrow> char" where
  "upper_char c = (if is_lower c then char_of ((of_char c :: nat) - 32) else c)"

definition lower :: "string \<Rightarrow> string" where
  "lower s = map lower_char s"

text \<open>
  \<open>str.title\<close>: a cased character is made upper case when the character before it is
  not cased, lower case otherwise.
\<close>

fun title_from :: "bool \<Rightarrow> string \<Rightarrow> string" where
  "title_from previous_is_cased [] = []"
| "title_from previous_is_cased (c # cs) =
     (if is_upper c \<or> is_lower c
      then (if previous_is_cased then lower_char c else upper_char c) # title_from True cs
      else c # title_from False cs)"

definition title :: "string \<Rightarrow> string" where
  "title s = title_from False s"

definition is_space :: "char \<Rightarrow> bool" where
  "is_space c = ((of_char c :: nat) \<in> {9, 10, 11, 12, 13, 28, 29, 30, 31, 32})"

definition strip :: "string \<Rightarrow> string" where
  "strip s = rev (dropWhile is_space (rev (dropWhile is_space s)))"

definition startswith :: "string \<Rightarrow> string \<Rightarrow> bool" where
  "startswith s pre = (take (length pre) s = pre)"

text \<open>\<open>sub in s\<close> on strings.\<close>

fun str_contains :: "string \<Rightarrow> string \<Rightarrow> bool" where
  "str_contains sub [] = (sub = [])"
| "str_contains sub (c # cs) = (startswith (c # cs) sub \<or> str_contains sub cs)"

text \<open>\<open>sep.join(parts)\<close>\<close>

fun join :: "string \<Rightarrow> string list \<Rightarrow> string" where
  "join sep [] = []"
| "join sep [x] = x"
| "join sep (x # y # ys) = x @ sep @ join sep (y # ys)"

definition newline :: char where
  "newline = CHR 0x0A"

text \<open>
  \<open>Path(p).suffix\<close> of pathlib on a POSIX path: the final component is what follows the
  last slash once trailing slashes are dropped, and its suffix starts at its last dot,
  unless that dot is its first or its last character.
\<close>

definition path_name :: "string \<Rightarrow> string" where
  "path_name p =
     rev (takeWhile (\<lambda>c. c \<noteq> CHR ''/'') (dropWhile (\<lambda>c. c = CHR ''/'') (rev p)))"

definition path_suffix :: "string \<Rightarrow> string" where
  "path_suffix p =
     (let name = path_name p;
          after = rev (takeWhile (\<lambda>c. c \<noteq> CHR ''.'') (rev name))
      in if CHR ''.'' \<in> set name \<and> after \<noteq> [] \<and> length after + 1 < length name
         then CHR ''.'' # after else [])"

text \<open>
  The values \<open>json.loads\<close> returns. A dict is the list of its items in order, with
  distinct keys.
\<close>

datatype json =
  JNone | JBool bool | JInt int | JFloat rat | JStr string
  | JList "json list" | JDict "(string \<times> json) list"

text \<open>\<open>d.get(k, default)\<close>\<close>

definition dict_get :: "(string \<times> 'v) list \<Rightarrow> string \<Rightarrow> 'v \<Rightarrow> 'v" where
  "dict_get d k dflt = (case map_of d k of None \<Rightarrow> dflt | Some v \<Rightarrow> v)"

text \<open>The truth value of a JSON value in an \<open>if\<close>.\<close>

fun py_truthy :: "json \<Rightarrow> bool" where
  "py_truthy JNone = False"
| "py_truthy (JBool b) = b"
| "py_truthy (JInt i) = (i \<noteq> 0)"
| "py_truthy (JFloat q) = (q \<noteq> 0)"
| "py_truthy (JStr s) = (s \<noteq> [])"
| "py_truthy (JList xs) = (xs \<noteq> [])"
| "py_truthy (JDict d) = (d \<noteq> [])"

text \<open>\<open>for x in v\<close>: a list gives its elements, a dict its keys, a string its characters.\<close>

fun py_iter :: "json \<Rightarrow> exn + json list" where
  "py_iter (JList xs) = Inr xs"
| "py_iter (JDict d) = Inr (map (\<lambda>kv. JStr (fst kv)) d)"
| "py_iter (JStr s) = Inr (map (\<lambda>c. JStr [c]) s)"
| "py_iter v = Inl (Exn TypeError ''object is not iterable'')"

text \<open>
  The library and the backend, as the ingestor sees them: the renderings of time stamps
  and of values, the JSON codec, the temporary directory, and for each backend or file
  operation whether it raises.
\<close>

record pyenv =
  isoformat :: "timestamp \<Rightarrow> string"
  strftime :: "timestamp \<Rightarrow> string"
  json_loads :: "string \<Rightarrow> exn + json"
  json_dumps :: "(string \<times> json) list \<Rightarrow> string"
  py_repr :: "json \<Rightarrow> string"
  gettempdir :: string
  create_dir_error :: "exn option"
  create_table_error :: "exn option"
  create_view_error :: "exn option"
  add_embedding_index_error :: "exn option"
  get_table_error :: "exn option"
  insert_error :: "(string \<times> string) list \<Rightarrow> exn option"
  mkdir_error :: "string \<Rightarrow> exn option"
  open_error :: "string \<Rightarrow> exn option"
  unlink_error :: "string \<Rightarrow> exn option"

text \<open>\<open>str(v)\<close> as an f-string renders it: a string is itself.\<close>

definition py_str :: "pyenv \<Rightarrow> json \<Rightarrow> string" where
  "py_str env v = (case v of JStr s \<Rightarrow> s | _ \<Rightarrow> py_repr env v)"

section \<open>claude\_conversations.py: ClaudeConversationIngestor\<close>

definition get_supported_formats :: "string list" where
  "get_supported_formats = [''.txt'', ''.json'', ''.md'']"

definition validate_source_claude ::
  "pyenv \<Rightarrow> string \<Rightarrow> world \<Rightarrow> (exn + bool \<times> string option) \<times> world" where
  "validate_source_claude env source_path w =
     (case fs w source_path of
        None \<Rightarrow> (Inr (False, Some (''Source path does not exist: '' @ source_path)), w)
      | Some entry \<Rightarrow>
         (if lower (path_suffix source_path) \<notin> set get_supported_formats
          then (Inr (False, Some (''Unsupported file format: '' @ path_suffix source_path)), w)
          else
            (case entry of
               Unreadable e \<Rightarrow> (Inr (False, Some (''Error reading file: '' @ exn_msg e)), w)
             | File content \<Rightarrow>
                (if length (strip content) = 0 then (Inr (False, Some ''File is empty''), w)
                 else
                   (case (if lower (path_suffix source_path) = ''.json''
                          then (case json_loads env content of
                                  Inr (JDict d) \<Rightarrow> Inr True
                                | Inr (JList xs) \<Rightarrow> Inr True
                                | Inr v \<Rightarrow> Inr False
                                | Inl e \<Rightarrow>
                                    (if exn_class e = JSONDecodeError then Inr False else Inl e))
                          else Inr False) of
                      Inl e \<Rightarrow> (Inr (False, Some (''Error reading file: '' @ exn_msg e)), w)
                    | Inr True \<Rightarrow> (Inr (True, None), w)
                    | Inr False \<Rightarrow>
                        (if list_ex (\<lambda>marker. str_contains marker (lower content))
                              [''human:'', ''assistant:'', ''claude:'', ''user:'']
                         then (Inr (True, None), w)
                         else (Inr (True, None), w)))))))"

text \<open>
  The canonical record \<open>_extract_conversation_as_document\<close> returns: the dict with the
  keys \<open>document_text\<close>, \<open>metadata\<close> and \<open>title\<close>.
\<close>

record canonical_record =
  document_text :: json
  record_metadata :: "(string \<times> json) list"
  record_title :: json

text \<open>
  One message of \<open>_format_messages_as_text\<close>: the body of its loop. \<open>normalize_role\<close> is
  what it does to the role, \<open>.title()\<close> first and the two tests on \<open>role.lower()\<close> after.
\<close>

definition normalize_role :: "string \<Rightarrow> string" where
  "normalize_role raw =
     (let role = title raw
      in if lower role \<in> set [''human'', ''user''] then ''Human''
         else if lower role \<in> set [''assistant'', ''claude''] then ''Assistant''
         else role)"

definition format_message :: "pyenv \<Rightarrow> json \<Rightarrow> exn + string" where
  "format_message env msg =
     (case msg of
        JDict d \<Rightarrow>
          (case dict_get d ''role'' (JStr ''unknown'') of
             JStr r \<Rightarrow>
               (let role = normalize_role r;
                    content = dict_get d ''content'' (JStr [])
                in Inr (role @ '': '' @ py_str env content))
           | v \<Rightarrow> Inl (Exn AttributeError ''object has no attribute title''))
      | v \<Rightarrow> Inl (Exn AttributeError ''object has no attribute get''))"

text \<open>The loop over the messages stops at the first message that raises.\<close>

fun format_all :: "pyenv \<Rightarrow> json list \<Rightarrow> exn + string list" where
  "format_all env [] = Inr []"
| "format_all env (msg # msgs) =
     (case format_message env msg of
        Inl e \<Rightarrow> Inl e
      | Inr part \<Rightarrow>
          (case format_all env msgs of
             Inl e \<Rightarrow> Inl e
           | Inr text_parts \<Rightarrow> Inr (part # text_parts)))"

definition format_messages_as_text :: "pyenv \<Rightarrow> json \<Rightarrow> exn + string" where
  "format_messages_as_text env messages =
     (case py_iter messages of
        Inl e \<Rightarrow> Inl e
      | Inr msgs \<Rightarrow>
          (case format_all env msgs of
             Inl e \<Rightarrow> Inl e
           | Inr text_parts \<Rightarrow> Inr (join [newline, newline] text_parts)))"

text \<open>\<open>datetime.now()\<close>: the clock is read and moves on.\<close>

definition now :: "world \<Rightarrow> timestamp \<times> world" where
  "now w = (clock w, w\<lparr> clock := Suc (clock w) \<rparr>)"

text \<open>
  \<open>_extract_conversation_as_document\<close>. Only a dict survives \<open>'messages' in conv_data\<close>
  followed by \<open>conv_data[...]\<close> or \<open>conv_data.get\<close>: a list or a string raises at the
  subscript or at \<open>get\<close>, any other value at \<open>in\<close>.
\<close>

definition extract_conversation_as_document ::
  "pyenv \<Rightarrow> json \<Rightarrow> string \<Rightarrow> nat \<Rightarrow> world \<Rightarrow> (exn + canonical_record) \<times> world" where
  "extract_conversation_as_document env conv_data source_path index w =
     (case conv_data of
        JDict d \<Rightarrow>
          (case (if map_of d ''messages'' \<noteq> None
                 then (case format_messages_as_text env (dict_get d ''messages'' JNone) of
                         Inl e \<Rightarrow> Inl e
                       | Inr doc_text \<Rightarrow>
                           Inr (JStr doc_text,
                                dict_get d ''title''
                                  (JStr (''Claude Conversation '' @ str_nat (index + 1))),
                                dict_get d ''created_at'' JNone,
                                dict_get d ''updated_at'' JNone))
                 else Inr (dict_get d ''raw_content'' (JStr (py_str env conv_data)),
                           JStr (''Claude Conversation '' @ str_nat (index + 1)),
                           JNone, JNone)) of
             Inl e \<Rightarrow> (Inl e, w)
           | Inr (doc_text, ttl, created_at, updated_at) \<Rightarrow>
               (case now w of
                  (t, w1) \<Rightarrow>
                    (Inr \<lparr> document_text = doc_text,
                           record_metadata =
                             [(''source_type'', JStr ''claude_conversation''),
                              (''source_file'', JStr source_path),
                              (''title'', ttl),
                              (''conversation_index'', JInt (int index)),
                              (''created_at'', created_at),
                              (''updated_at'', updated_at),
                              (''parsed_at'', JStr (isoformat env t)),
                              (''format'', dict_get d ''format'' (JStr ''json''))],
                           record_title = ttl \<rparr>, w1)))
      | JList xs \<Rightarrow>
          (if JStr ''messages'' \<in> set xs
           then (Inl (Exn TypeError ''list indices must be integers or slices, not str''), w)
           else (Inl (Exn AttributeError ''object has no attribute get''), w))
      | JStr s \<Rightarrow>
          (if str_contains ''messages'' s
           then (Inl (Exn TypeError ''string indices must be integers''), w)
           else (Inl (Exn AttributeError ''object has no attribute get''), w))
      | v \<Rightarrow> (Inl (Exn TypeError ''argument is not iterable''), w))"

text \<open>The loop \<open>for i, conv in enumerate(data)\<close>, from index \<open>i\<close> on.\<close>

fun extract_all ::
  "pyenv \<Rightarrow> json list \<Rightarrow> string \<Rightarrow> nat \<Rightarrow> world \<Rightarrow> (exn + canonical_record list) \<times> world" where
  "extract_all env [] source_path i w = (Inr [], w)"
| "extract_all env (conv # convs) source_path i w =
     (case extract_conversation_as_document env conv source_path i w of
        (Inl e, w1) \<Rightarrow> (Inl e, w1)
      | (Inr r, w1) \<Rightarrow>
          (case extract_all env convs source_path (Suc i) w1 of
             (Inl e, w2) \<Rightarrow> (Inl e, w2)
           | (Inr rs, w2) \<Rightarrow> (Inr (r # rs), w2)))"

definition parse_json_conversations ::
  "pyenv \<Rightarrow> string \<Rightarrow> string \<Rightarrow> world \<Rightarrow> (exn + canonical_record list) \<times> world" where
  "parse_json_conversations env content source_path w =
     (case json_loads env content of
        Inl e \<Rightarrow>
          (if exn_class e = JSONDecodeError
           then (Inr [], log_w ERROR (''Invalid JSON in '' @ source_path @ '': '' @ exn_msg e) w)
           else (Inl e, w))
      | Inr data \<Rightarrow>
          (case data of
             JList convs \<Rightarrow> extract_all env convs source_path 0 w
           | JDict d \<Rightarrow>
               (case extract_conversation_as_document env data source_path 0 w of
                  (Inl e, w1) \<Rightarrow> (Inl e, w1)
                | (Inr r, w1) \<Rightarrow> (Inr [r], w1))
           | v \<Rightarrow> (Inr [], w)))"

definition parse_text_conversations ::
  "pyenv \<Rightarrow> string \<Rightarrow> string \<Rightarrow> world \<Rightarrow> (exn + canonical_record list) \<times> world" where
  "parse_text_conversations env content source_path w =
     (case now w of
        (t, w1) \<Rightarrow>
          (let conversation_data =
                 JDict [(''raw_content'', JStr content),
                        (''source_file'', JStr source_path),
                        (''format'', JStr ''text''),
                        (''parsed_at'', JStr (isoformat env t)),
                        (''conversation_index'', JInt 0)]
           in case extract_conversation_as_document env conversation_data source_path 0 w1 of
                (Inl e, w2) \<Rightarrow> (Inl e, w2)
              | (Inr r, w2) \<Rightarrow> (Inr [r], w2)))"

text \<open>\<open>path.read_text\<close> raises on a path that is absent or cannot be read.\<close>

definition read_text :: "world \<Rightarrow> string \<Rightarrow> exn + string" where
  "read_text w p =
     (case fs w p of
        None \<Rightarrow> Inl (Exn OSError (''No such file or directory: '' @ p))
      | Some (Unreadable e) \<Rightarrow> Inl e
      | Some (File content) \<Rightarrow> Inr content)"

definition parse_source_claude ::
  "pyenv \<Rightarrow> string \<Rightarrow> world \<Rightarrow> (exn + canonical_record list) \<times> world" where
  "parse_source_claude env source_path w =
     (case read_text w source_path of
        Inl e \<Rightarrow> (Inl e, w)
      | Inr content \<Rightarrow>
          (if lower (path_suffix source_path) = ''.json''
           then parse_json_conversations env content source_path w
           else parse_text_conversations env content source_path w))"

text \<open>
  \<open>_create_temp_document\<close>. The title goes through \<open>re.sub\<close>, which wants a string;
  the file is opened for writing (created or emptied) and written piece by piece, so a
  raise in the middle leaves what was written so far.
\<close>

definition safe_char :: "char \<Rightarrow> char" where
  "safe_char c =
     (if is_upper c \<or> is_lower c \<or> (48 \<le> (of_char c :: nat) \<and> (of_char c :: nat) \<le> 57)
         \<or> c \<in> set ''-_.''
      then c else CHR ''_'')"

definition create_temp_document ::
  "pyenv \<Rightarrow> json \<Rightarrow> json \<Rightarrow> (string \<times> json) list \<Rightarrow> world \<Rightarrow> (exn + string) \<times> world" where
  "create_temp_document env text ttl md w =
     (case ttl of
        JStr t \<Rightarrow>
          (let safe_title = take 50 (map safe_char t)
           in case now w of
                (ts, w1) \<Rightarrow>
          (let temp_dir = gettempdir env @ ''/takeout_ingestor_docs''
           in case mkdir_error env temp_dir of
                Some e \<Rightarrow> (Inl e, w1)
              | None \<Rightarrow>
          (let temp_file = temp_dir @ ''/claude_conv_'' @ strftime env ts @ ''_'' @ safe_title
                             @ ''.txt''
           in case open_error env temp_file of
                Some e \<Rightarrow> (Inl e, w1)
              | None \<Rightarrow>
          (let written1 = ''Title: '' @ t @ [newline]
                 @ ''Source: '' @ py_str env (dict_get md ''source_type'' (JStr ''unknown''))
                 @ [newline]
                 @ (if py_truthy (dict_get md ''created_at'' JNone)
                    then ''Created: '' @ py_str env (dict_get md ''created_at'' JNone) @ [newline]
                    else [])
           in case map_of md ''parsed_at'' of
                None \<Rightarrow> (Inl (Exn KeyError ''parsed_at''),
                          w1\<lparr> fs := (fs w1)(temp_file \<mapsto> File written1) \<rparr>)
              | Some parsed_at \<Rightarrow>
          (let written2 = written1 @ ''Parsed: '' @ py_str env parsed_at @ [newline]
                 @ [newline] @ replicate 50 (CHR ''='') @ [newline, newline]
           in case text of
                JStr body \<Rightarrow> (Inr temp_file,
                              w1\<lparr> fs := (fs w1)(temp_file \<mapsto> File (written2 @ body)) \<rparr>)
              | v \<Rightarrow> (Inl (Exn TypeError ''write() argument must be str''),
                       w1\<lparr> fs := (fs w1)(temp_file \<mapsto> File written2) \<rparr>))))))
      | v \<Rightarrow> (Inl (Exn TypeError ''expected string or bytes-like object''), w))"

text \<open>
  \<open>transform_record\<close>: the stored record is the dict of its four items, the staged file's
  path twice, once under the reserved key \<open>_temp_file_path\<close>.
\<close>

definition transform_record_claude ::
  "pyenv \<Rightarrow> canonical_record \<Rightarrow> world \<Rightarrow> (exn + (string \<times> string) list) \<times> world" where
  "transform_record_claude env r w =
     (case create_temp_document env (document_text r) (record_title r) (record_metadata r) w of
        (Inl e, w1) \<Rightarrow> (Inl e, w1)
      | (Inr temp_file, w1) \<Rightarrow>
          (case now w1 of
             (t, w2) \<Rightarrow>
               (Inr [(''pdf_file'', temp_file),
                     (''document_metadata'', json_dumps env (record_metadata r)),
                     (''ingested_at'', isoformat env t),
                     (''_temp_file_path'', temp_file)], w2)))"

definition ensure_pixeltable_schema_claude :: "pyenv \<Rightarrow> world \<Rightarrow> (exn + unit) \<times> world" where
  "ensure_pixeltable_schema_claude env w =
     (case (case create_dir_error env of
              Some e \<Rightarrow> (Inl e, w)
            | None \<Rightarrow>
                (case create_table_error env of
                   Some e \<Rightarrow> (Inl e, w)
                 | None \<Rightarrow>
                     (case (case create_view_error env of
                              Some e \<Rightarrow> Some e
                            | None \<Rightarrow> add_embedding_index_error env) of
                        None \<Rightarrow> (Inr (), log_w INFO ''Unified documents table schema ready'' w)
                      | Some e \<Rightarrow>
                          (Inr (), log_w WARNING
                                     (''Chunks view might already exist: '' @ exn_msg e) w)))) of
        (Inl e, w1) \<Rightarrow>
          (Inl e, log_w ERROR (''Error setting up Pixeltable schema: '' @ exn_msg e) w1)
      | (Inr u, w1) \<Rightarrow> (Inr u, w1))"

text \<open>
  \<open>_store_pixeltable\<close>. The insert comes first; the staged file is unlinked after it,
  inside the same \<open>try\<close>, with a handler of its own that only warns.
\<close>

definition store_pixeltable_claude ::
  "pyenv \<Rightarrow> (string \<times> string) list \<Rightarrow> world \<Rightarrow> (exn + unit) \<times> world" where
  "store_pixeltable_claude env r w =
     (case (if \<not> pixeltable_client w
            then (Inl (Exn AttributeError ''NoneType object has no attribute get_table''), w)
            else
              (case get_table_error env of
                 Some e \<Rightarrow> (Inl e, w)
               | None \<Rightarrow>
                   (let store_record = filter (\<lambda>kv. \<not> startswith (fst kv) ''_'') r
                    in case insert_error env store_record of
                         Some e \<Rightarrow> (Inl e, w)
                       | None \<Rightarrow>
                   (let w1 = w\<lparr> table_rows := table_rows w @ [store_record] \<rparr>
                    in case map_of r ''_temp_file_path'' of
                         None \<Rightarrow> (Inr (), w1)
                       | Some temp_file \<Rightarrow>
                           (if temp_file \<noteq> [] \<and> fs w1 temp_file \<noteq> None
                            then (case unlink_error env temp_file of
                                    None \<Rightarrow> (Inr (), w1\<lparr> fs := (fs w1)(temp_file := None) \<rparr>)
                                  | Some e \<Rightarrow>
                                      (Inr (), log_w WARNING
                                                 (''Could not clean up temp file '' @ temp_file
                                                    @ '': '' @ exn_msg e) w1))
                            else (Inr (), w1)))))) of
        (Inl e, w') \<Rightarrow>
          (Inl e, log_w ERROR (''Error storing record in Pixeltable: '' @ exn_msg e) w')
      | (Inr u, w') \<Rightarrow> (Inr u, w'))"

text \<open>
  The ingestor as \<open>BaseIngestor.ingest\<close> sees it. The module imports \<open>pixeltable\<close> when it
  is loaded, so the import inside \<open>initialize_backend\<close> succeeds.
\<close>

definition claude_methods ::
  "pyenv \<Rightarrow> (canonical_record, (string \<times> string) list) ingestor_methods" where
  "claude_methods env =
     \<lparr> get_table_name = ''doc_search.all_documents'',
       import_pixeltable = None,
       ensure_pixeltable_schema = ensure_pixeltable_schema_claude env,
       validate_source = validate_source_claude env,
       parse_source = parse_source_claude env,
       transform_record = transform_record_claude env,
       store_pixeltable = store_pixeltable_claude env \<rparr>"

section \<open>Auxiliary notions for stating the properties\<close>

text \<open>
  A record raises in \<open>_process_batch\<close> when its transform raises or, the transform having
  returned, its store raises. \<open>batch_outcomes\<close> lists, record by record and in the state
  each record is processed in, whether the record went through.
\<close>

definition record_raises :: "('r, 't) ingestor_methods \<Rightarrow> 'r \<Rightarrow> world \<Rightarrow> bool" where
  "record_raises m r w =
     (case transform_record m r w of
        (Inl e, w1) \<Rightarrow> True
      | (Inr t, w1) \<Rightarrow>
          (case store_pixeltable m t w1 of
             (Inl e, w2) \<Rightarrow> True
           | (Inr u, w2) \<Rightarrow> False))"

definition state_after_record ::
  "(timestamp \<Rightarrow> string) \<Rightarrow> ('r, 't) ingestor_methods \<Rightarrow> 'r \<Rightarrow> ingestor_state \<Rightarrow> ingestor_state" where
  "state_after_record isofmt m r s = snd (snd (process_batch_loop isofmt m [r] (0, 0, s)))"

fun batch_outcomes ::
  "(timestamp \<Rightarrow> string) \<Rightarrow> ('r, 't) ingestor_methods \<Rightarrow> 'r list \<Rightarrow> ingestor_state \<Rightarrow> bool list" where
  "batch_outcomes isofmt m [] s = []"
| "batch_outcomes isofmt m (r # rs) s =
     (\<not> record_raises m r (world s)) # batch_outcomes isofmt m rs (state_after_record isofmt m r s)"

subsection \<open>Messages and conversation objects\<close>

text \<open>
  The role normalization and the block of one message as the specification words them,
  and the well-formed inputs: a message is an object whose role, when it has one, is a
  string; a conversation object is an object whose \<open>messages\<close>, when it has them, are a
  sequence of messages.
\<close>

definition normalized_role :: "string \<Rightarrow> string" where
  "normalized_role r =
     (if lower r = ''human'' \<or> lower r = ''user'' then ''Human''
      else if lower r = ''assistant'' \<or> lower r = ''claude'' then ''Assistant''
      else title r)"

definition message_role :: "(string \<times> json) list \<Rightarrow> string option" where
  "message_role d = (case dict_get d ''role'' (JStr ''unknown'') of JStr r \<Rightarrow> Some r | v \<Rightarrow> None)"

definition message_block :: "pyenv \<Rightarrow> (string \<times> json) list \<Rightarrow> string" where
  "message_block env d =
     normalized_role (the (message_role d)) @ '': '' @ py_str env (dict_get d ''content'' (JStr []))"

definition well_formed_message :: "json \<Rightarrow> bool" where
  "well_formed_message msg = (case msg of JDict d \<Rightarrow> message_role d \<noteq> None | v \<Rightarrow> False)"

definition conversation_object :: "json \<Rightarrow> bool" where
  "conversation_object conv =
     (case conv of
        JDict d \<Rightarrow>
          (case map_of d ''messages'' of
             None \<Rightarrow> True
           | Some (JList msgs) \<Rightarrow> list_all well_formed_message msgs
           | Some v \<Rightarrow> False)
      | v \<Rightarrow> False)"

definition conversation_index :: "canonical_record \<Rightarrow> json option" where
  "conversation_index r = map_of (record_metadata r) ''conversation_index''"

subsection \<open>A run of six records in batches of two\<close>

text \<open>
  An ingestor whose every method succeeds, started with a fresh progress tracker, and a
  \<open>_process_batch\<close> that raises on the second batch and is the inherited one elsewhere.
\<close>

definition scenario_world :: world where
  "scenario_world = \<lparr> pixeltable_client = False, clock = 0, logs = [],
                      fs = (\<lambda>p. None), table_rows = [] \<rparr>"

definition scenario_state :: ingestor_state where
  "scenario_state = \<lparr> batch_size = 2, progress = Some (IngestorProgress_init 0 0),
                      calls = [], world = scenario_world \<rparr>"

definition scenario_methods :: "(nat, nat) ingestor_methods" where
  "scenario_methods =
     \<lparr> get_table_name = ''doc_search.all_documents'',
       import_pixeltable = None,
       ensure_pixeltable_schema = (\<lambda>w. (Inr (), w)),
       validate_source = (\<lambda>p w. (Inr (True, None), w)),
       parse_source = (\<lambda>p w. (Inr [1, 2, 3, 4, 5, 6], w)),
       transform_record = (\<lambda>r w. (Inr r, w)),
       store_pixeltable = (\<lambda>t w. (Inr (), w)) \<rparr>"

definition scenario_process_batch ::
  "nat list \<Rightarrow> ingestor_state \<Rightarrow> (exn + int \<times> int) \<times> ingestor_state" where
  "scenario_process_batch batch s =
     (if batch = [3, 4] then (Inl (Exn RuntimeError ''systemic failure''), s)
      else process_batch str_nat scenario_methods batch s)"

definition scenario_completed :: ingestor_state where
  "scenario_completed =
     scenario_state\<lparr> progress := Some ((IngestorProgress_init 0 6)\<lparr> status := COMPLETED \<rparr>) \<rparr>"

section \<open>Properties\<close>

subsection \<open>Progress arithmetic\<close>


subsection \<open>The counts of a batch\<close>

lemma try_record_raises:
  "isl (fst (try_record m r s)) = record_raises m r (world s)"
  by (simp add: try_record_def record_raises_def record_call_def Let_def
           split: prod.splits sum.splits)

lemma length_batch_outcomes: "length (batch_outcomes isofmt m batch s) = length batch"
  by (induction batch arbitrary: s) simp_all

lemma process_batch_loop_step:
  "process_batch_loop isofmt m (r # rs) (p, f, s) =
     process_batch_loop isofmt m rs
       (if record_raises m r (world s) then p else p + 1,
        if record_raises m r (world s) then f + 1 else f,
        state_after_record isofmt m r s)"
proof -
  obtain res s1 where tr: "try_record m r s = (res, s1)" by (cases "try_record m r s")
  show ?thesis
  proof (cases res)
    case (Inl e)
    with tr try_record_raises[of m r s] show ?thesis
      by (simp add: state_after_record_def Let_def)
  next
    case (Inr u)
    with tr try_record_raises[of m r s] show ?thesis
      by (simp add: state_after_record_def)
  qed
qed

lemma process_batch_loop_counts:
  "fst (process_batch_loop isofmt m batch (p, f, s)) =
     p + int (length (filter id (batch_outcomes isofmt m batch s)))
   \<and> fst (snd (process_batch_loop isofmt m batch (p, f, s))) =
     f + int (length (filter Not (batch_outcomes isofmt m batch s)))"
proof (induction batch arbitrary: p f s)
  case Nil
  show ?case by simp
next
  case (Cons r rs)
  show ?case
    unfolding process_batch_loop_step
    using Cons.IH[of "if record_raises m r (world s) then p else p + 1"
                     "if record_raises m r (world s) then f + 1 else f"
                     "state_after_record isofmt m r s"]
    by simp
qed

lemma length_filter_id_Not: "length (filter id xs) + length (filter Not xs) = length xs"
  by (induction xs) simp_all

text \<open>
  C10. For every batch, \<open>_process_batch\<close> returns, and its two counts add up to the length
  of the batch: each record adds one to exactly one of them, to \<open>failed\<close> when its
  transform or its store raises and to \<open>processed\<close> otherwise.
\<close>

theorem process_batch_counts:
  "\<exists>processed failed s'.
     process_batch isofmt m batch s = (Inr (processed, failed), s')
     \<and> processed = int (length (filter id (batch_outcomes isofmt m batch s)))
     \<and> failed = int (length (filter Not (batch_outcomes isofmt m batch s)))
     \<and> length (batch_outcomes isofmt m batch s) = length batch
     \<and> processed + failed = int (length batch)"
proof -
  obtain p f s' where l: "process_batch_loop isofmt m batch (0, 0, s) = (p, f, s')"
    by (cases "process_batch_loop isofmt m batch (0, 0, s)")
  from process_batch_loop_counts[of isofmt m batch 0 0 s] l
  have p: "p = int (length (filter id (batch_outcomes isofmt m batch s)))"
    and f: "f = int (length (filter Not (batch_outcomes isofmt m batch s)))" by simp_all
  have len: "length (batch_outcomes isofmt m batch s) = length batch"
    by (rule length_batch_outcomes)
  have "p + f = int (length batch)"
    using length_filter_id_Not[of "batch_outcomes isofmt m batch s"] len p f by simp
  moreover have "process_batch isofmt m batch s = (Inr (p, f), s')"
    using l by (simp add: process_batch_def)
  ultimately show ?thesis using p f len by blast
qed

subsection \<open>A batch that raises as a whole\<close>

text \<open>
  C1. Six records in three batches of two, the second batch raising from
  \<open>_process_batch\<close>, every record of the other two going through. The exception stays
  inside \<open>ingest\<close>, a summary is returned with 4 processed and 2 failed records and the
  status is \<open>FAILED\<close>; the tracker has \<open>processed_items = 4\<close>, but its \<open>failed_items\<close> is
  0, not 2: the handler of the batch adds the length of the batch to the local
  \<open>failed_count\<close> only and never calls \<open>progress.update\<close>.
\<close>

theorem batch_failure_not_in_progress:
  "(case ingest_with str_nat scenario_process_batch scenario_methods ''conversations.json''
           False False scenario_state of
      (r, s') \<Rightarrow>
        (case r of Inr (Summary sm) \<Rightarrow> Some (processed_records sm, failed_records sm)
                 | _ \<Rightarrow> None) = Some (4, 2)
        \<and> map_option (\<lambda>p. (status p, processed_items p, failed_items p)) (progress s')
            = Some (FAILED, 4, 0))"
  by code_simp

subsection \<open>Status transitions\<close>

text \<open>
  C5, as the code has it. \<open>update\<close> and \<open>add_error\<close> never touch the status. \<open>pause\<close> and
  \<open>resume\<close> set it to \<open>PAUSED\<close> and to \<open>RUNNING\<close> whatever it was, a terminal status
  included: the source has no guard on \<open>COMPLETED\<close> or \<open>FAILED\<close>.
\<close>

theorem status_overwritten:
  "status (update ts pr fl md p) = status p
   \<and> status (add_error t msg p) = status p
   \<and> map_option status (progress (pause s)) = map_option (\<lambda>p. PAUSED) (progress s)
   \<and> map_option status (progress (resume s)) = map_option (\<lambda>p. RUNNING) (progress s)"
  by (cases "progress s")
     (simp_all add: update_def add_error_def pause_def resume_def log_def Let_def
        split: option.splits)

text \<open>
  C5, as stated, fails: a tracker whose status is \<open>COMPLETED\<close> is \<open>PAUSED\<close> after \<open>pause\<close>
  and \<open>RUNNING\<close> after \<open>resume\<close>.
\<close>

theorem terminal_status_counterexample:
  "map_option status (progress scenario_completed) = Some COMPLETED
   \<and> map_option status (progress (pause scenario_completed)) = Some PAUSED
   \<and> map_option status (progress (resume scenario_completed)) = Some RUNNING"
  by (simp add: scenario_completed_def scenario_state_def pause_def resume_def log_def
        IngestorProgress_init_def)

subsection \<open>Steps 1 to 3 of ingest\<close>

lemma progress_log [simp]: "progress (log lvl msg s) = progress s"
  by (simp add: log_def)

lemma calls_log [simp]: "calls (log lvl msg s) = calls s"
  by (simp add: log_def)

lemma clock_log [simp]: "clock (world (log lvl msg s)) = clock (world s)"
  by (simp add: log_def log_w_def)

lemma table_rows_log [simp]: "table_rows (world (log lvl msg s)) = table_rows (world s)"
  by (simp add: log_def log_w_def)

lemma fs_log [simp]: "fs (world (log lvl msg s)) = fs (world s)"
  by (simp add: log_def log_w_def)

lemma progress_record_call [simp]: "progress (record_call c s) = progress s"
  by (simp add: record_call_def)

lemma calls_record_call [simp]: "calls (record_call c s) = calls s @ [c]"
  by (simp add: record_call_def)

lemma world_record_call [simp]: "world (record_call c s) = world s"
  by (simp add: record_call_def)

lemma initialize_backend_frame:
  "progress (snd (initialize_backend m s)) = progress s
   \<and> calls (snd (initialize_backend m s)) = calls s"
  by (simp add: initialize_backend_def Let_def split: option.splits prod.splits sum.splits)

lemma ingest_prepare_progress: "progress (snd (ingest_prepare m source_path s)) = progress s"
proof -
  obtain r s2 where i: "initialize_backend m
      (record_call Call_initialize_backend (log INFO (''Starting ingestion of '' @ source_path) s))
        = (r, s2)" by (cases "initialize_backend m
      (record_call Call_initialize_backend (log INFO (''Starting ingestion of '' @ source_path) s))")
  have p2: "progress s2 = progress s"
    using initialize_backend_frame[of m "record_call Call_initialize_backend
        (log INFO (''Starting ingestion of '' @ source_path) s)"] i by simp
  show ?thesis
    using i p2
    by (simp add: ingest_prepare_def Let_def split: prod.splits sum.splits)
qed

lemma ingest_prepare_calls_ok:
  assumes "ingest_prepare m source_path s = (Inr records, s6)"
  shows "calls s6 = calls s @ [Call_initialize_backend, Call_validate_source, Call_parse_source]"
proof -
  obtain r s2 where i: "initialize_backend m
      (record_call Call_initialize_backend (log INFO (''Starting ingestion of '' @ source_path) s))
        = (r, s2)" by (cases "initialize_backend m
      (record_call Call_initialize_backend (log INFO (''Starting ingestion of '' @ source_path) s))")
  have c2: "calls s2 = calls s @ [Call_initialize_backend]"
    using initialize_backend_frame[of m "record_call Call_initialize_backend
        (log INFO (''Starting ingestion of '' @ source_path) s)"] i by simp
  show ?thesis
    using assms i c2
    by (auto simp add: ingest_prepare_def Let_def split: prod.splits sum.splits if_splits)
qed

text \<open>
  C2, as the code has it. When validation and parsing succeed, a validate-only call
  returns the report with the record count and the first record (or \<open>None\<close>), calls no
  method after \<open>parse_source\<close> (no \<open>_process_batch\<close>, transform or store) and leaves the
  table as parsing left it. The tracker does change, before the validate-only test is
  reached: \<open>total_items\<close> is the record count and the status is \<open>RUNNING\<close>.
\<close>

theorem validate_only_report:
  assumes "ingest_prepare m source_path s = (Inr records, s6)"
  shows "\<exists>s'. ingest_with isofmt pb m source_path resume_flag True s =
           (Inr (Validation_report (int (length records))
                   (case records of [] \<Rightarrow> None | r # rs \<Rightarrow> Some r)), s')
         \<and> calls s' = calls s @ [Call_initialize_backend, Call_validate_source, Call_parse_source]
         \<and> table_rows (world s') = table_rows (world s6)
         \<and> progress s' =
             map_option (\<lambda>p. p\<lparr> total_items := int (length records), status := RUNNING \<rparr>)
               (progress s)"
proof -
  have p6: "progress s6 = progress s"
    using ingest_prepare_progress[of m source_path s] assms by simp
  have c6: "calls s6 = calls s @ [Call_initialize_backend, Call_validate_source, Call_parse_source]"
    using assms by (rule ingest_prepare_calls_ok)
  show ?thesis
    using assms p6 c6
    by (cases "progress s")
       (simp_all add: ingest_with_def ingest_body_def ingest_process_def Let_def)
qed

text \<open>
  C2, as stated, fails: a validate-only run on a tracker that is \<open>PENDING\<close> leaves it
  \<open>RUNNING\<close>.
\<close>

theorem validate_only_counterexample:
  "map_option status (progress scenario_state) = Some PENDING
   \<and> map_option status
       (progress (snd (ingest str_nat scenario_methods ''conversations.json'' False True
                         scenario_state))) = Some RUNNING"
  by code_simp

lemma handler_progress:
  "progress (ingest_handler isofmt e sx) =
     map_option (\<lambda>p. p\<lparr> status := FAILED,
                         errors := errors p @ [isofmt (clock (world sx)) @ '': '' @ exn_msg e] \<rparr>)
       (progress sx)"
  by (cases "progress sx")
     (simp_all add: ingest_handler_def track_add_error_def set_status_def tick_def add_error_def)

text \<open>
  The exceptions of steps 1 to 3 are the \<open>Inl\<close> results of \<open>ingest_prepare\<close>: what
  \<open>initialize_backend\<close>, \<open>validate_source\<close> or \<open>parse_source\<close> raises, and the
  \<open>ValueError\<close> of a negative validation.
\<close>

lemma prepare_initialize_raises:
  "initialize_backend m (record_call Call_initialize_backend
       (log INFO (''Starting ingestion of '' @ source_path) s)) = (Inl e, s2)
   \<Longrightarrow> ingest_prepare m source_path s = (Inl e, s2)"
  by (simp add: ingest_prepare_def Let_def)

lemma prepare_validate_raises:
  "initialize_backend m (record_call Call_initialize_backend
       (log INFO (''Starting ingestion of '' @ source_path) s)) = (Inr u, s2)
   \<Longrightarrow> validate_source m source_path (world s2) = (Inl e, w4)
   \<Longrightarrow> fst (ingest_prepare m source_path s) = Inl e"
  by (simp add: ingest_prepare_def Let_def)

lemma prepare_validation_negative:
  "initialize_backend m (record_call Call_initialize_backend
       (log INFO (''Starting ingestion of '' @ source_path) s)) = (Inr u, s2)
   \<Longrightarrow> validate_source m source_path (world s2) = (Inr (False, error_msg), w4)
   \<Longrightarrow> fst (ingest_prepare m source_path s)
         = Inl (Exn ValueError (''Source validation failed: '' @ str_opt error_msg))"
  by (simp add: ingest_prepare_def Let_def)

lemma prepare_parse_raises:
  "initialize_backend m (record_call Call_initialize_backend
       (log INFO (''Starting ingestion of '' @ source_path) s)) = (Inr u, s2)
   \<Longrightarrow> validate_source m source_path (world s2) = (Inr (True, error_msg), w4)
   \<Longrightarrow> parse_source m source_path w4 = (Inl e, w6)
   \<Longrightarrow> fst (ingest_prepare m source_path s) = Inl e"
  by (simp add: ingest_prepare_def Let_def)

text \<open>
  C4. An exception of steps 1 to 3 comes out of \<open>ingest\<close> as it was raised, and the
  tracker, when there is one, then has the status \<open>FAILED\<close> and the message of the
  exception, time-stamped, appended to its errors.
\<close>

theorem early_error_reraised:
  assumes "ingest_prepare m source_path s = (Inl e, sx)"
  shows "\<exists>s'. ingest_with isofmt pb m source_path resume_flag validate_only s = (Inl e, s')
         \<and> progress s' =
             map_option (\<lambda>p. p\<lparr> status := FAILED,
                                 errors := errors p @ [isofmt (clock (world sx)) @ '': '' @ exn_msg e] \<rparr>)
               (progress s)"
proof -
  have px: "progress sx = progress s"
    using ingest_prepare_progress[of m source_path s] assms by simp
  show ?thesis
    using assms px handler_progress[of isofmt e sx]
    by (simp add: ingest_with_def ingest_body_def)
qed

subsection \<open>Role normalization and rendering\<close>

lemma of_char_char_of_small: "n < 256 \<Longrightarrow> (of_char (char_of (n::nat)) :: nat) = n"
  by simp

lemma lower_upper_char: "lower_char (upper_char c) = lower_char c"
proof (cases "is_lower c")
  case True
  define n where "n = (of_char c :: nat)"
  from True have r: "97 \<le> n" "n \<le> 122" by (simp_all add: is_lower_def n_def)
  then have nu: "\<not> is_upper c" by (simp add: is_upper_def n_def[symmetric])
  have o: "(of_char (char_of (n - 32)) :: nat) = n - 32"
    using r by (simp add: of_char_char_of_small)
  have u: "is_upper (char_of (n - 32))"
    unfolding is_upper_def o using r by arith
  have "n - 32 + 32 = n" using r by arith
  then have "lower_char (char_of (n - 32)) = char_of n"
    using u o by (simp add: lower_char_def)
  also have "\<dots> = c" by (simp add: n_def)
  finally show ?thesis using nu True by (simp add: lower_char_def upper_char_def n_def)
next
  case False
  then show ?thesis by (simp add: upper_char_def)
qed

lemma lower_lower_char: "lower_char (lower_char c) = lower_char c"
proof (cases "is_upper c")
  case True
  then have r: "65 \<le> (of_char c :: nat)" "(of_char c :: nat) \<le> 90" by (simp_all add: is_upper_def)
  have o: "(of_char (char_of ((of_char c :: nat) + 32)) :: nat) = of_char c + 32"
    using r by (simp add: of_char_char_of_small)
  have "\<not> is_upper (char_of ((of_char c :: nat) + 32))"
    using r o by (simp add: is_upper_def)
  then show ?thesis using True by (simp add: lower_char_def)
next
  case False
  then show ?thesis by (simp add: lower_char_def)
qed

lemma lower_title_from: "lower (title_from b s) = lower s"
  by (induction s arbitrary: b) (simp_all add: lower_def lower_upper_char lower_lower_char)

lemma lower_title: "lower (title s) = lower s"
  by (simp add: title_def lower_title_from)

lemma normalize_role_eq: "normalize_role r = normalized_role r"
  by (simp add: normalize_role_def normalized_role_def Let_def lower_title)

lemma format_all_ok:
  assumes "\<forall>d \<in> set ds. message_role d \<noteq> None"
  shows "format_all env (map JDict ds) = Inr (map (message_block env) ds)"
  using assms
proof (induction ds)
  case Nil
  show ?case by simp
next
  case (Cons d ds)
  then obtain r where r: "dict_get d ''role'' (JStr ''unknown'') = JStr r"
    by (auto simp add: message_role_def split: json.splits)
  have "format_message env (JDict d) = Inr (message_block env d)"
    using r by (simp add: format_message_def message_block_def message_role_def normalize_role_eq)
  with Cons show ?case by simp
qed

text \<open>
  C8. A role whose lower-case form is \<open>human\<close> or \<open>user\<close> becomes \<open>Human\<close>, one whose
  lower-case form is \<open>assistant\<close> or \<open>claude\<close> becomes \<open>Assistant\<close>, any other role is
  title-cased; and the text of a list of messages is the blocks \<open>role: content\<close> of the
  messages, in order, joined by a blank line.
\<close>

theorem role_normalization_and_rendering:
  "(lower r = ''human'' \<or> lower r = ''user'' \<longrightarrow> normalize_role r = ''Human'')
   \<and> (lower r = ''assistant'' \<or> lower r = ''claude'' \<longrightarrow> normalize_role r = ''Assistant'')
   \<and> (lower r \<notin> {''human'', ''user'', ''assistant'', ''claude''} \<longrightarrow> normalize_role r = title r)
   \<and> ((\<forall>d \<in> set ds. message_role d \<noteq> None) \<longrightarrow>
        format_messages_as_text env (JList (map JDict ds)) =
          Inr (join [newline, newline]
                 (map (\<lambda>d. normalize_role (the (message_role d)) @ '': ''
                            @ py_str env (dict_get d ''content'' (JStr []))) ds)))"
proof -
  have a: "lower r = ''human'' \<or> lower r = ''user'' \<longrightarrow> normalize_role r = ''Human''"
    by (simp add: normalize_role_eq normalized_role_def)
  have b: "lower r = ''assistant'' \<or> lower r = ''claude'' \<longrightarrow> normalize_role r = ''Assistant''"
    by (auto simp add: normalize_role_eq normalized_role_def)
  have c: "lower r \<notin> {''human'', ''user'', ''assistant'', ''claude''} \<longrightarrow> normalize_role r = title r"
    by (simp add: normalize_role_eq normalized_role_def)
  have d: "(\<forall>d \<in> set ds. message_role d \<noteq> None) \<longrightarrow>
        format_messages_as_text env (JList (map JDict ds)) =
          Inr (join [newline, newline]
                 (map (\<lambda>d. normalize_role (the (message_role d)) @ '': ''
                            @ py_str env (dict_get d ''content'' (JStr []))) ds))"
  proof
    assume wf: "\<forall>d \<in> set ds. message_role d \<noteq> None"
    have mb: "map (message_block env) ds =
              map (\<lambda>d. normalize_role (the (message_role d)) @ '': ''
                            @ py_str env (dict_get d ''content'' (JStr []))) ds"
      by (rule map_cong) (simp_all add: message_block_def normalize_role_eq)
    show "format_messages_as_text env (JList (map JDict ds)) =
          Inr (join [newline, newline]
                 (map (\<lambda>d. normalize_role (the (message_role d)) @ '': ''
                            @ py_str env (dict_get d ''content'' (JStr []))) ds))"
      using format_all_ok[OF wf, of env] mb
      by (simp add: format_messages_as_text_def)
  qed
  from a b c d show ?thesis by blast
qed

subsection \<open>Parsing JSON conversations\<close>

lemma format_all_returns:
  "list_all well_formed_message msgs \<Longrightarrow> \<exists>parts. format_all env msgs = Inr parts"
proof (induction msgs)
  case Nil
  show ?case by simp
next
  case (Cons msg msgs)
  then obtain d where d: "msg = JDict d" and r: "message_role d \<noteq> None"
    by (auto simp add: well_formed_message_def split: json.splits)
  from r obtain ro where "dict_get d ''role'' (JStr ''unknown'') = JStr ro"
    by (auto simp add: message_role_def split: json.splits)
  then have "\<exists>part. format_message env msg = Inr part"
    by (simp add: format_message_def d Let_def)
  moreover from Cons have "\<exists>parts. format_all env msgs = Inr parts" by simp
  ultimately show ?case by auto
qed

lemma extract_ok:
  assumes "conversation_object conv"
  shows "\<exists>r. extract_conversation_as_document env conv source_path i w = (Inr r, snd (now w))
             \<and> conversation_index r = Some (JInt (int i))"
proof -
  from assms obtain d where d: "conv = JDict d"
    by (auto simp add: conversation_object_def split: json.splits)
  show ?thesis
  proof (cases "map_of d ''messages''")
    case None
    then show ?thesis
      by (simp add: extract_conversation_as_document_def d now_def conversation_index_def)
  next
    case (Some ms)
    with assms d obtain msgs where ms: "ms = JList msgs" and wf: "list_all well_formed_message msgs"
      by (auto simp add: conversation_object_def split: json.splits)
    from format_all_returns[OF wf, of env] obtain parts where "format_all env msgs = Inr parts"
      by blast
    then have "format_messages_as_text env (dict_get d ''messages'' JNone)
                 = Inr (join [newline, newline] parts)"
      using Some ms by (simp add: format_messages_as_text_def dict_get_def)
    then show ?thesis
      using Some
      by (simp add: extract_conversation_as_document_def d now_def conversation_index_def)
  qed
qed

lemma extract_all_ok:
  assumes "list_all conversation_object convs"
  shows "\<exists>rs w'. extract_all env convs source_path i w = (Inr rs, w')
           \<and> length rs = length convs
           \<and> map conversation_index rs = map (\<lambda>k. Some (JInt (int k))) [i ..< i + length convs]
           \<and> (\<forall>k < length convs. \<exists>wa wb.
                 extract_conversation_as_document env (convs ! k) source_path (i + k) wa
                   = (Inr (rs ! k), wb))"
  using assms
proof (induction convs arbitrary: i w)
  case Nil
  show ?case by simp
next
  case (Cons conv convs)
  then have c: "conversation_object conv" and cs: "list_all conversation_object convs" by simp_all
  from extract_ok[OF c, of env source_path i w] obtain r where
    r: "extract_conversation_as_document env conv source_path i w = (Inr r, snd (now w))"
    and ri: "conversation_index r = Some (JInt (int i))" by blast
  from Cons.IH[OF cs, of "Suc i" "snd (now w)"] obtain rs w' where
    e: "extract_all env convs source_path (Suc i) (snd (now w)) = (Inr rs, w')"
    and l: "length rs = length convs"
    and m: "map conversation_index rs = map (\<lambda>k. Some (JInt (int k))) [Suc i ..< Suc i + length convs]"
    and o: "\<forall>k < length convs. \<exists>wa wb.
                 extract_conversation_as_document env (convs ! k) source_path (Suc i + k) wa
                   = (Inr (rs ! k), wb)" by blast
  have 1: "extract_all env (conv # convs) source_path i w = (Inr (r # rs), w')"
    using r e by simp
  have 2: "length (r # rs) = length (conv # convs)" using l by simp
  have 3: "map conversation_index (r # rs)
             = map (\<lambda>k. Some (JInt (int k))) [i ..< i + length (conv # convs)]"
  proof -
    have "[i ..< i + length (conv # convs)] = i # [Suc i ..< Suc i + length convs]"
      by (simp add: upt_rec)
    then show ?thesis using ri m by simp
  qed
  have 4: "\<forall>k < length (conv # convs). \<exists>wa wb.
             extract_conversation_as_document env ((conv # convs) ! k) source_path (i + k) wa
               = (Inr ((r # rs) ! k), wb)"
  proof (intro allI impI)
    fix k assume k: "k < length (conv # convs)"
    show "\<exists>wa wb. extract_conversation_as_document env ((conv # convs) ! k) source_path (i + k) wa
               = (Inr ((r # rs) ! k), wb)"
    proof (cases k)
      case 0
      then show ?thesis using r by auto
    next
      case (Suc j)
      with k have "j < length convs" by simp
      with o obtain wa wb where
        "extract_conversation_as_document env (convs ! j) source_path (Suc i + j) wa
           = (Inr (rs ! j), wb)" by blast
      then show ?thesis using Suc by auto
    qed
  qed
  from 1 2 3 4 show ?case by blast
qed

text \<open>
  C9. On a JSON source: a sequence of N conversation objects gives N records, the record
  at position k made from the object at position k with \<open>conversation_index\<close> k; a single
  object gives one record; content that is not JSON gives no record and no exception.
\<close>

theorem json_parsing:
  assumes "fs w source_path = Some (File content)"
      and "lower (path_suffix source_path) = ''.json''"
  shows "(json_loads env content = Inr (JList convs) \<and> list_all conversation_object convs \<longrightarrow>
           (\<exists>rs w'. parse_source_claude env source_path w = (Inr rs, w')
              \<and> length rs = length convs
              \<and> map conversation_index rs = map (\<lambda>k. Some (JInt (int k))) [0 ..< length convs]
              \<and> (\<forall>k < length convs. \<exists>wa wb.
                    extract_conversation_as_document env (convs ! k) source_path k wa
                      = (Inr (rs ! k), wb))))
       \<and> (json_loads env content = Inr (JDict d) \<and> conversation_object (JDict d) \<longrightarrow>
           (\<exists>r w'. parse_source_claude env source_path w = (Inr [r], w')
              \<and> conversation_index r = Some (JInt 0)))
       \<and> (json_loads env content = Inl e \<and> exn_class e = JSONDecodeError \<longrightarrow>
           (\<exists>w'. parse_source_claude env source_path w = (Inr [], w')))"
proof -
  have p: "parse_source_claude env source_path w = parse_json_conversations env content source_path w"
    using assms by (simp add: parse_source_claude_def read_text_def)
  have a: "json_loads env content = Inr (JList convs) \<and> list_all conversation_object convs \<longrightarrow>
           (\<exists>rs w'. parse_source_claude env source_path w = (Inr rs, w')
              \<and> length rs = length convs
              \<and> map conversation_index rs = map (\<lambda>k. Some (JInt (int k))) [0 ..< length convs]
              \<and> (\<forall>k < length convs. \<exists>wa wb.
                    extract_conversation_as_document env (convs ! k) source_path k wa
                      = (Inr (rs ! k), wb)))"
  proof
    assume h: "json_loads env content = Inr (JList convs) \<and> list_all conversation_object convs"
    then have q: "parse_json_conversations env content source_path w
                    = extract_all env convs source_path 0 w"
      by (simp add: parse_json_conversations_def)
    from h extract_all_ok[of convs env source_path 0 w]
    show "\<exists>rs w'. parse_source_claude env source_path w = (Inr rs, w')
              \<and> length rs = length convs
              \<and> map conversation_index rs = map (\<lambda>k. Some (JInt (int k))) [0 ..< length convs]
              \<and> (\<forall>k < length convs. \<exists>wa wb.
                    extract_conversation_as_document env (convs ! k) source_path k wa
                      = (Inr (rs ! k), wb))"
      unfolding p q by simp
  qed
  have b: "json_loads env content = Inr (JDict d) \<and> conversation_object (JDict d) \<longrightarrow>
           (\<exists>r w'. parse_source_claude env source_path w = (Inr [r], w')
              \<and> conversation_index r = Some (JInt 0))"
  proof
    assume h: "json_loads env content = Inr (JDict d) \<and> conversation_object (JDict d)"
    from h extract_ok[of "JDict d" env source_path 0 w] obtain r where
      "extract_conversation_as_document env (JDict d) source_path 0 w = (Inr r, snd (now w))"
      and "conversation_index r = Some (JInt 0)" by auto
    with h show "\<exists>r w'. parse_source_claude env source_path w = (Inr [r], w')
              \<and> conversation_index r = Some (JInt 0)"
      unfolding p by (simp add: parse_json_conversations_def)
  qed
  have c: "json_loads env content = Inl e \<and> exn_class e = JSONDecodeError \<longrightarrow>
           (\<exists>w'. parse_source_claude env source_path w = (Inr [], w'))"
    unfolding p by (simp add: parse_json_conversations_def)
  from a b c show ?thesis by blast
qed

end
